theory Spec2Isabelle
  imports Complex_Main
begin

section \<open>Entities of the energy system\<close>

text \<open>
  The model builder \<^verbatim>\<open>optimization_model.py\<close> reads its entities through the
  attributes \<^verbatim>\<open>uid\<close>, \<^verbatim>\<open>inputs\<close>, \<^verbatim>\<open>outputs\<close> and \<^verbatim>\<open>eta\<close>.

  Modelled from the spec: the module \<^verbatim>\<open>components\<close> (the classes \<^verbatim>\<open>Bus\<close>,
  \<^verbatim>\<open>SimpleTransformer\<close> and \<^verbatim>\<open>Transformer\<close>) is imported by the source but is not
  part of it. The records below carry exactly the attributes the source reads: every
  entity has a \<^verbatim>\<open>uid\<close>, a bus has a type tag, a component has ordered lists of input
  and output buses, and a simple transformer has an efficiency in addition. Python's
  floats are taken as exact reals: model construction only stores them as coefficients
  of symbolic expressions and performs no arithmetic on them.
\<close>

type_synonym uid = string
type_synonym edge = "uid \<times> uid"
type_synonym timestep = int

record entity =
  uid :: uid

record bus = entity +
  bus_type :: string

record component = entity +
  inputs :: "bus list"
  outputs :: "bus list"

record simple_transformer = component +
  eta :: real

text \<open>The dictionary \<^verbatim>\<open>entities\<close> with its three keys
  \<^verbatim>\<open>'buses'\<close>, \<^verbatim>\<open>'s_transformers'\<close> and \<^verbatim>\<open>'s_chps'\<close>.\<close>

record entities =
  e_buses :: "bus list"
  e_s_transformers :: "simple_transformer list"
  e_s_chps :: "component list"

section \<open>Python exceptions, dictionaries and list indexing\<close>

datatype error = IndexError | KeyError | AttributeError | SolverException string

definition raise_bind :: "error + 'a \<Rightarrow> ('a \<Rightarrow> error + 'b) \<Rightarrow> error + 'b" where
  "raise_bind r f = (case r of Inl e \<Rightarrow> Inl e | Inr v \<Rightarrow> f v)"

text \<open>A comprehension or generator whose element expression may raise: the elements are
  computed from left to right and the first exception ends the whole computation.\<close>

fun traverse :: "('a \<Rightarrow> error + 'b) \<Rightarrow> 'a list \<Rightarrow> error + 'b list" where
  "traverse f [] = Inr []"
| "traverse f (x # xs) =
     (case f x of
        Inl e \<Rightarrow> Inl e
      | Inr y \<Rightarrow> (case traverse f xs of Inl e \<Rightarrow> Inl e | Inr ys \<Rightarrow> Inr (y # ys)))"

text \<open>\<^verbatim>\<open>dict(pairs)\<close> and \<^verbatim>\<open>{k: v for ...}\<close>: a later pair with the same key replaces
  an earlier one.\<close>

definition dict :: "('k \<times> 'v) list \<Rightarrow> ('k \<rightharpoonup> 'v)" where
  "dict kvs = fold (\<lambda>(k, v) d. d(k \<mapsto> v)) kvs Map.empty"

definition getitem :: "('k \<rightharpoonup> 'v) \<Rightarrow> 'k \<Rightarrow> error + 'v" where
  "getitem d k = (case d k of None \<Rightarrow> Inl KeyError | Some v \<Rightarrow> Inr v)"

text \<open>\<^verbatim>\<open>xs[n]\<close> for the literal indices \<^verbatim>\<open>0\<close> and \<^verbatim>\<open>1\<close> of the source.\<close>

definition index :: "'a list \<Rightarrow> nat \<Rightarrow> error + 'a" where
  "index xs n = (if n < length xs then Inr (xs ! n) else Inl IndexError)"

section \<open>Symbolic expressions, constraints and variables\<close>

text \<open>
  The rules of the source build symbolic expressions over the variables \<^verbatim>\<open>w[i,j,t]\<close>
  and \<^verbatim>\<open>w_add[i,j]\<close> with the operators \<^verbatim>\<open>+\<close>, unary \<^verbatim>\<open>-\<close>, \<^verbatim>\<open>*\<close> and \<^verbatim>\<open>/\<close>
  by a number. A rule returns either the pair \<^verbatim>\<open>(expr, 0)\<close>, an equality of the
  expression with the number, or a relation \<^verbatim>\<open>lhs <= rhs\<close>.
\<close>

datatype expr =
    ENum real
  | EW edge timestep
  | EWAdd edge
  | EAdd expr expr
  | ENeg expr
  | EMul expr real
  | EDiv expr real

datatype constr = CEq expr real | CLe expr expr

text \<open>The value of an expression under values \<open>\<sigma>\<close> of the flow variables and \<open>\<alpha>\<close>
  of the investment variables, and what a constraint states about them.\<close>

fun eval :: "(edge \<Rightarrow> timestep \<Rightarrow> real) \<Rightarrow> (edge \<Rightarrow> real) \<Rightarrow> expr \<Rightarrow> real" where
  "eval \<sigma> \<alpha> (ENum c) = c"
| "eval \<sigma> \<alpha> (EW e t) = \<sigma> e t"
| "eval \<sigma> \<alpha> (EWAdd e) = \<alpha> e"
| "eval \<sigma> \<alpha> (EAdd a b) = eval \<sigma> \<alpha> a + eval \<sigma> \<alpha> b"
| "eval \<sigma> \<alpha> (ENeg a) = - eval \<sigma> \<alpha> a"
| "eval \<sigma> \<alpha> (EMul a c) = eval \<sigma> \<alpha> a * c"
| "eval \<sigma> \<alpha> (EDiv a c) = eval \<sigma> \<alpha> a / c"

fun holds :: "(edge \<Rightarrow> timestep \<Rightarrow> real) \<Rightarrow> (edge \<Rightarrow> real) \<Rightarrow> constr \<Rightarrow> bool" where
  "holds \<sigma> \<alpha> (CEq a c) = (eval \<sigma> \<alpha> a = c)"
| "holds \<sigma> \<alpha> (CLe a b) = (eval \<sigma> \<alpha> a \<le> eval \<sigma> \<alpha> b)"

text \<open>Python's \<^verbatim>\<open>sum\<close>: starts at \<^verbatim>\<open>0\<close> and adds the elements from left to right.\<close>

definition py_sum :: "expr list \<Rightarrow> expr" where
  "py_sum xs = foldl EAdd (ENum 0) xs"

text \<open>A declared variable: its domain (\<^verbatim>\<open>within=\<close>) and, when a \<^verbatim>\<open>bounds=\<close> rule was
  given, the pair the rule returned. The bounds in force are those of the domain
  intersected with those of the rule.\<close>

datatype domain = NonNegativeReals

record var_data =
  var_within :: domain
  var_bounds :: "(real \<times> real) option"

definition lower_bound :: "var_data \<Rightarrow> real" where
  "lower_bound v = (case var_bounds v of None \<Rightarrow> 0 | Some (l, u) \<Rightarrow> max 0 l)"

definition upper_bound :: "var_data \<Rightarrow> real option" where
  "upper_bound v = (case var_bounds v of None \<Rightarrow> None | Some (l, u) \<Rightarrow> Some u)"

text \<open>\<^verbatim>\<open>po.Var(index, bounds=rule, within=po.NonNegativeReals)\<close>: one variable for
  every element of the index list, the bounds rule called once for each.\<close>

definition po_Var :: "'i list \<Rightarrow> ('i \<Rightarrow> error + real \<times> real) option \<Rightarrow> error + ('i \<times> var_data) list" where
  "po_Var idx rule =
     (case rule of
        None \<Rightarrow> Inr (map (\<lambda>i. (i, \<lparr>var_within = NonNegativeReals, var_bounds = None\<rparr>)) idx)
      | Some r \<Rightarrow>
          traverse (\<lambda>i. raise_bind (r i)
            (\<lambda>b. Inr (i, \<lparr>var_within = NonNegativeReals, var_bounds = Some b\<rparr>))) idx)"

text \<open>\<^verbatim>\<open>po.Constraint(A, B, rule=rule)\<close> on a concrete model: the rule is called at
  once for every pair of the two index lists, the first index outermost, and an
  exception raised by the rule leaves the constructor.\<close>

definition po_Constraint :: "'a list \<Rightarrow> 'b list \<Rightarrow> ('a \<Rightarrow> 'b \<Rightarrow> error + constr) \<Rightarrow> error + (('a \<times> 'b) \<times> constr) list" where
  "po_Constraint A B rule =
     traverse (\<lambda>(a, b). raise_bind (rule a b) (\<lambda>c. Inr ((a, b), c))) (List.product A B)"

section \<open>The model object\<close>

text \<open>The attributes the source sets on the \<^verbatim>\<open>ConcreteModel\<close> \<^verbatim>\<open>m\<close>. A component that
  is attached later, or only in investment mode, is \<open>None\<close> until then.\<close>

record model =
  m_invest :: bool
  m_timesteps :: "timestep list"
  m_buses :: "uid list"
  m_s_transformers :: "uid list"
  m_s_chps :: "uid list"
  m_edges :: "edge list"
  m_w_max :: "edge \<rightharpoonup> real"
  m_w :: "((edge \<times> timestep) \<times> var_data) list"
  m_w_add :: "(edge \<times> var_data) list option"
  m_bus_constr :: "((uid \<times> timestep) \<times> constr) list option"
  m_s_chp_eta_constr :: "((uid \<times> timestep) \<times> constr) list option"
  m_s_chp_pth_constr :: "((uid \<times> timestep) \<times> constr) list option"
  m_s_transformer_eta_constr :: "((uid \<times> timestep) \<times> constr) list option"
  m_ee :: "edge list option"
  m_s_transformer_w_max :: "((edge \<times> timestep) \<times> constr) list option"
  m_objective :: "expr option"

text \<open>\<^verbatim>\<open>m.w[i,j,t]\<close> and \<^verbatim>\<open>m.w_add[i,j]\<close> inside an expression: the variable, or a
  \<^verbatim>\<open>KeyError\<close> when the index was not declared.\<close>

definition w_getitem :: "model \<Rightarrow> edge \<Rightarrow> timestep \<Rightarrow> error + expr" where
  "w_getitem m ij t =
     (case map_of (m_w m) (ij, t) of None \<Rightarrow> Inl KeyError | Some v \<Rightarrow> Inr (EW ij t))"

definition w_add_getitem :: "model \<Rightarrow> edge \<Rightarrow> error + expr" where
  "w_add_getitem m ij =
     (case m_w_add m of
        None \<Rightarrow> Inl AttributeError
      | Some vs \<Rightarrow> (case map_of vs ij of None \<Rightarrow> Inl KeyError | Some v \<Rightarrow> Inr (EWAdd ij)))"

section \<open>Edge derivation\<close>

text \<open>\<^verbatim>\<open>get_edges\<close>: the body of the loop over the components appends to the list
  \<^verbatim>\<open>edges\<close>, first one edge for every input, then one for every output.\<close>

definition component_edges :: "'a component_scheme \<Rightarrow> edge list \<Rightarrow> edge list" where
  "component_edges c edges =
     fold (\<lambda>out es. es @ [(uid c, uid out)]) (outputs c)
       (fold (\<lambda>i es. es @ [(uid i, uid c)]) (inputs c) edges)"

definition get_edges :: "'a component_scheme list \<Rightarrow> edge list" where
  "get_edges components = fold component_edges components []"

section \<open>Variables and bounds\<close>

text \<open>\<^verbatim>\<open>w_max_rule\<close> reads the capacity of the edge from \<^verbatim>\<open>m.w_max\<close>.\<close>

definition w_max_rule :: "(edge \<rightharpoonup> real) \<Rightarrow> edge \<Rightarrow> timestep \<Rightarrow> error + real \<times> real" where
  "w_max_rule wmax ij t = raise_bind (getitem wmax ij) (\<lambda>c. Inr (0, c))"

text \<open>Lines 17 to 43 of \<^verbatim>\<open>opt_model\<close>: the plain attributes, the capacities
  \<^verbatim>\<open>m.w_max\<close> and the variables.\<close>

definition declare_model :: "entities \<Rightarrow> edge list \<Rightarrow> timestep list \<Rightarrow> bool \<Rightarrow> error + model" where
  "declare_model ents edges timesteps invest =
     (let wmax = dict (zip edges (replicate (length edges) 100)) in
      raise_bind
        (if invest then po_Var (List.product edges timesteps) None
         else po_Var (List.product edges timesteps) (Some (\<lambda>(ij, t). w_max_rule wmax ij t)))
        (\<lambda>wv.
      raise_bind (if invest then raise_bind (po_Var edges None) (\<lambda>av. Inr (Some av)) else Inr None)
        (\<lambda>wa.
      Inr \<lparr> m_invest = invest,
            m_timesteps = timesteps,
            m_buses = map uid (e_buses ents),
            m_s_transformers = map uid (e_s_transformers ents),
            m_s_chps = map uid (e_s_chps ents),
            m_edges = edges,
            m_w_max = wmax,
            m_w = wv,
            m_w_add = wa,
            m_bus_constr = None,
            m_s_chp_eta_constr = None,
            m_s_chp_pth_constr = None,
            m_s_transformer_eta_constr = None,
            m_ee = None,
            m_s_transformer_w_max = None,
            m_objective = None \<rparr>)))"

section \<open>Bus balance\<close>

definition bus_rule :: "model \<Rightarrow> uid \<Rightarrow> timestep \<Rightarrow> error + constr" where
  "bus_rule m e t =
     raise_bind (traverse (\<lambda>ij. w_getitem m ij t) (filter (\<lambda>(i, j). i = e) (m_edges m)))
       (\<lambda>outs.
     raise_bind (traverse (\<lambda>ij. w_getitem m ij t) (filter (\<lambda>(i, j). j = e) (m_edges m)))
       (\<lambda>ins.
     Inr (CEq (EAdd (EAdd (ENum 0) (ENeg (py_sum outs))) (py_sum ins)) 0)))"

section \<open>Simple transformers\<close>

definition s_transformer_eta_rule ::
  "(uid \<rightharpoonup> uid) \<Rightarrow> (uid \<rightharpoonup> uid) \<Rightarrow> (uid \<rightharpoonup> real) \<Rightarrow> model \<Rightarrow> uid \<Rightarrow> timestep \<Rightarrow> error + constr" where
  "s_transformer_eta_rule I_d O_d eta_d m e t =
     raise_bind (getitem I_d e) (\<lambda>i.
     raise_bind (w_getitem m (i, e) t) (\<lambda>x.
     raise_bind (getitem eta_d e) (\<lambda>c.
     raise_bind (getitem O_d e) (\<lambda>out.
     raise_bind (w_getitem m (e, out) t) (\<lambda>y.
     Inr (CEq (EAdd (EAdd (ENum 0) (EMul x c)) (ENeg y)) 0))))))"

definition w_bound_investment :: "model \<Rightarrow> edge \<Rightarrow> timestep \<Rightarrow> error + constr" where
  "w_bound_investment m ij t =
     raise_bind (w_getitem m ij t) (\<lambda>x.
     raise_bind (getitem (m_w_max m) ij) (\<lambda>c.
     raise_bind (w_add_getitem m ij) (\<lambda>a.
     Inr (CLe x (EAdd (ENum c) a)))))"

definition simple_transformer_model :: "simple_transformer list \<Rightarrow> model \<Rightarrow> error + model" where
  "simple_transformer_model s_transformers m =
     raise_bind (traverse (\<lambda>t. raise_bind (index (inputs t) 0) (\<lambda>i. Inr (uid t, uid i))) s_transformers)
       (\<lambda>I_kvs.
     raise_bind (traverse (\<lambda>t. raise_bind (index (outputs t) 0) (\<lambda>out. Inr (uid t, uid out))) s_transformers)
       (\<lambda>O_kvs.
     let I_d = dict I_kvs;
         O_d = dict O_kvs;
         eta_d = dict (map (\<lambda>t. (uid t, eta t)) s_transformers) in
     raise_bind (po_Constraint (m_s_transformers m) (m_timesteps m) (s_transformer_eta_rule I_d O_d eta_d m))
       (\<lambda>cs.
     let m1 = m\<lparr>m_s_transformer_eta_constr := Some cs\<rparr> in
     if m_invest m1 then
       (let m2 = m1\<lparr>m_ee := Some (get_edges s_transformers)\<rparr> in
        raise_bind (po_Constraint (get_edges s_transformers) (m_timesteps m2) (w_bound_investment m2))
          (\<lambda>bs. Inr (m2\<lparr>m_s_transformer_w_max := Some bs\<rparr>)))
     else Inr m1)))"

section \<open>Combined heat and power\<close>

definition s_chp_eta_rule ::
  "(uid \<rightharpoonup> uid) \<Rightarrow> (uid \<rightharpoonup> uid list) \<Rightarrow> model \<Rightarrow> uid \<Rightarrow> timestep \<Rightarrow> error + constr" where
  "s_chp_eta_rule I_d O_d m e t =
     raise_bind (getitem I_d e) (\<lambda>i.
     raise_bind (w_getitem m (i, e) t) (\<lambda>x.
     raise_bind (getitem O_d e) (\<lambda>outs.
     raise_bind (traverse (\<lambda>out. w_getitem m (e, out) t) outs) (\<lambda>ys.
     Inr (CEq (EAdd (EAdd (ENum 0) x) (EDiv (ENeg (py_sum ys)) 0.8)) 0)))))"

definition power_to_heat_rule ::
  "(uid \<rightharpoonup> uid list) \<Rightarrow> model \<Rightarrow> uid \<Rightarrow> timestep \<Rightarrow> error + constr" where
  "power_to_heat_rule O_d m e t =
     raise_bind (getitem O_d e) (\<lambda>outs0.
     raise_bind (index outs0 0) (\<lambda>out0.
     raise_bind (w_getitem m (e, out0) t) (\<lambda>x.
     raise_bind (getitem O_d e) (\<lambda>outs1.
     raise_bind (index outs1 1) (\<lambda>out1.
     raise_bind (w_getitem m (e, out1) t) (\<lambda>y.
     Inr (CEq (EAdd (EAdd (ENum 0) x) (EMul (ENeg y) 0.6)) 0)))))))"

definition simple_chp_model :: "component list \<Rightarrow> model \<Rightarrow> error + model" where
  "simple_chp_model s_chps m =
     raise_bind (traverse (\<lambda>t. raise_bind (index (inputs t) 0) (\<lambda>i. Inr (uid t, uid i))) s_chps)
       (\<lambda>I_kvs.
     let I_d = dict I_kvs;
         O_d = dict (map (\<lambda>t. (uid t, map uid (outputs t))) s_chps) in
     raise_bind (po_Constraint (m_s_chps m) (m_timesteps m) (s_chp_eta_rule I_d O_d m))
       (\<lambda>cs.
     let m1 = m\<lparr>m_s_chp_eta_constr := Some cs\<rparr> in
     raise_bind (po_Constraint (m_s_chps m1) (m_timesteps m1) (power_to_heat_rule O_d m1))
       (\<lambda>ps. Inr (m1\<lparr>m_s_chp_pth_constr := Some ps\<rparr>))))"

section \<open>Objective\<close>

definition obj_rule :: "model \<Rightarrow> error + expr" where
  "obj_rule m =
     raise_bind (traverse (\<lambda>(ij, t). w_getitem m ij t) (List.product (m_edges m) (m_timesteps m)))
       (\<lambda>xs. Inr (EAdd (ENum 0) (py_sum xs)))"

definition objective :: "model \<Rightarrow> error + model" where
  "objective m = raise_bind (obj_rule m) (\<lambda>ex. Inr (m\<lparr>m_objective := Some ex\<rparr>))"

section \<open>Assembling the model\<close>

text \<open>\<^verbatim>\<open>opt_model\<close>: the variables, the bus balance (lines 46 to 51: the rule
  \<^verbatim>\<open>bus_rule\<close> and the constraint \<^verbatim>\<open>m.bus_constr\<close> built from it), then the three
  blocks in the order the source calls them: CHPs, simple transformers, objective.\<close>

definition bus_balance :: "model \<Rightarrow> error + model" where
  "bus_balance m =
     raise_bind (po_Constraint (m_buses m) (m_timesteps m) (bus_rule m))
       (\<lambda>cs. Inr (m\<lparr>m_bus_constr := Some cs\<rparr>))"

definition opt_model :: "entities \<Rightarrow> edge list \<Rightarrow> timestep list \<Rightarrow> bool \<Rightarrow> error + model" where
  "opt_model ents edges timesteps invest =
     raise_bind (declare_model ents edges timesteps invest) (\<lambda>m.
     raise_bind (bus_balance m) (\<lambda>m0.
     raise_bind (simple_chp_model (e_s_chps ents) m0) (\<lambda>m1.
     raise_bind (simple_transformer_model (e_s_transformers ents) m1) (\<lambda>m2.
     objective m2))))"

section \<open>Solving\<close>

text \<open>
  The solver and the library calls around it are outside the source; \<^verbatim>\<open>solve_opt_model\<close>
  takes them as a parameter. Modelled from the spec: a solver's answer carries a status
  drawn from optimal, infeasible, unbounded, error and timeout, and the values of the
  variables. Each call either returns or raises.
\<close>

datatype solver_status = Optimal | Infeasible | Unbounded | Failed | Timeout

record results =
  status :: solver_status
  solution :: "(edge \<times> timestep) \<rightharpoonup> real"

record 'inst backend =
  b_create :: "model \<Rightarrow> error + 'inst"
  b_write :: "'inst \<Rightarrow> string \<Rightarrow> error + unit"
  b_solve :: "string \<Rightarrow> 'inst \<Rightarrow> bool \<Rightarrow> error + results"
  b_load :: "'inst \<Rightarrow> results \<Rightarrow> error + 'inst"

definition solve_opt_model ::
  "'inst backend \<Rightarrow> model \<Rightarrow> string \<Rightarrow> (string \<rightharpoonup> bool) \<Rightarrow> bool \<Rightarrow> error + 'inst" where
  "solve_opt_model lib model solver options debug =
     raise_bind (b_create lib model) (\<lambda>instance.
     raise_bind (if debug then b_write lib instance ''problem.lp'' else Inr ()) (\<lambda>u.
     raise_bind (getitem options ''stream'') (\<lambda>tee.
     raise_bind (b_solve lib solver instance tee) (\<lambda>res.
     raise_bind (b_load lib instance res) (\<lambda>loaded.
     Inr loaded)))))"

section \<open>A small energy system\<close>

text \<open>The network of the source's main block with one simple transformer and one CHP:
  coal bus \<open>b1\<close>, electricity bus \<open>b2\<close>, heat bus \<open>b3\<close>.\<close>

definition bus1 :: bus where
  "bus1 = \<lparr>uid = ''b1'', bus_type = ''coal''\<rparr>"

definition bus2 :: bus where
  "bus2 = \<lparr>uid = ''b2'', bus_type = ''elec''\<rparr>"

definition bus3 :: bus where
  "bus3 = \<lparr>uid = ''b3'', bus_type = ''th''\<rparr>"

definition t0 :: simple_transformer where
  "t0 = \<lparr>uid = ''t0'', inputs = [bus1], outputs = [bus2], eta = 0.5\<rparr>"

definition c0 :: component where
  "c0 = \<lparr>uid = ''c0'', inputs = [bus1], outputs = [bus2, bus3]\<rparr>"

definition entities_dict :: entities where
  "entities_dict = \<lparr>e_buses = [bus1, bus2, bus3], e_s_transformers = [t0], e_s_chps = [c0]\<rparr>"

definition example_edges :: "edge list" where
  "example_edges = [(''b1'', ''t0''), (''t0'', ''b2''), (''b1'', ''c0''), (''c0'', ''b2''), (''c0'', ''b3'')]"

section \<open>Edge derivation: properties\<close>

lemma fold_snoc_map: "fold (\<lambda>x es. es @ [f x]) xs acc = acc @ map f xs"
  by (induction xs arbitrary: acc) simp_all

lemma component_edges_append:
  "component_edges c acc =
     acc @ map (\<lambda>i. (uid i, uid c)) (inputs c) @ map (\<lambda>out. (uid c, uid out)) (outputs c)"
  by (simp add: component_edges_def fold_snoc_map)

lemma fold_component_edges:
  "fold component_edges cs acc =
     acc @ concat (map (\<lambda>c. map (\<lambda>i. (uid i, uid c)) (inputs c) @ map (\<lambda>out. (uid c, uid out)) (outputs c)) cs)"
proof (induction cs arbitrary: acc)
  case Nil
  show ?case by simp
next
  case (Cons c cs)
  have "fold component_edges (c # cs) acc = fold component_edges cs (component_edges c acc)"
    by simp
  also have "\<dots> = component_edges c acc @
      concat (map (\<lambda>c. map (\<lambda>i. (uid i, uid c)) (inputs c) @ map (\<lambda>out. (uid c, uid out)) (outputs c)) cs)"
    by (rule Cons.IH)
  also have "\<dots> = acc @
      concat (map (\<lambda>c. map (\<lambda>i. (uid i, uid c)) (inputs c) @ map (\<lambda>out. (uid c, uid out)) (outputs c)) (c # cs))"
    by (simp add: component_edges_append)
  finally show ?case .
qed

lemma get_edges_concat:
  "get_edges cs =
     concat (map (\<lambda>c. map (\<lambda>i. (uid i, uid c)) (inputs c) @ map (\<lambda>out. (uid c, uid out)) (outputs c)) cs)"
  by (simp add: get_edges_def fold_component_edges)

text \<open>
  C6. For every list of components, \<^verbatim>\<open>get_edges\<close> returns, for each component in list
  order, first one edge \<open>(input.uid, component.uid)\<close> per input in input-list order and
  then one edge \<open>(component.uid, output.uid)\<close> per output in output-list order; nothing
  is removed, repeated pairs included.
\<close>

theorem get_edges_ordered_sequence:
  "get_edges cs =
     concat (map (\<lambda>c. map (\<lambda>i. (uid i, uid c)) (inputs c) @ map (\<lambda>out. (uid c, uid out)) (outputs c)) cs)"
  by (rule get_edges_concat)

text \<open>
  C10. \<^verbatim>\<open>get_edges\<close> is a list homomorphism: the edges of a concatenation are the
  concatenation of the edges, the empty list has no edges, and the number of edges is the
  sum over the components of the number of inputs plus the number of outputs.
\<close>

theorem get_edges_homomorphism:
  "get_edges (xs @ ys) = get_edges xs @ get_edges ys
   \<and> get_edges [] = []
   \<and> length (get_edges xs) = (\<Sum>c\<leftarrow>xs. length (inputs c) + length (outputs c))"
proof -
  have len: "length (get_edges zs) = (\<Sum>c\<leftarrow>zs. length (inputs c) + length (outputs c))" for zs :: "'a component_scheme list"
    by (simp add: get_edges_concat length_concat comp_def)
  have app: "get_edges (xs @ ys) = get_edges xs @ get_edges ys"
    by (simp add: get_edges_concat)
  show ?thesis
    by (intro conjI app len) (simp add: get_edges_def)
qed

end
